theory Spec2Isabelle
  imports Complex_Main
begin

section \<open>JavaScript values\<close>

text \<open>
  The route handlers of \<open>users.js\<close>, \<open>auth.js\<close> and \<open>dives.js\<close> read JSON request
  bodies and query strings and answer with a status code and a JSON object. A JSON value is
  the datatype below; \<open>JText\<close> stands for a message literal of the source (the messages are
  Korean text there, named here by an ASCII gloss). A property that is absent, JavaScript's
  \<open>undefined\<close>, is \<open>None\<close> of a \<open>json option\<close>. Numbers are exact rationals: every finite
  double is one, and comparison and the integer arithmetic of the handlers are exact on them
  inside the safe-integer range. Strings are lists of 8-bit characters.
\<close>

datatype json =
    JNull
  | JBool bool
  | JNum rat
  | JStr string
  | JText string
  | JArr "json list"
  | JObj "(string \<times> json) list"

type_synonym obj = "(string \<times> json) list"

text \<open>\<open>!!v\<close>: the falsy values are \<open>undefined\<close>, \<open>null\<close>, \<open>false\<close>, \<open>0\<close> and \<open>""\<close>.\<close>

fun truthy :: "json \<Rightarrow> bool" where
  "truthy JNull = False"
| "truthy (JBool b) = b"
| "truthy (JNum n) = (n \<noteq> 0)"
| "truthy (JStr s) = (s \<noteq> [])"
| "truthy (JText s) = True"
| "truthy (JArr xs) = True"
| "truthy (JObj kvs) = True"


text \<open>\<open>v || d\<close> on a possibly absent property.\<close>

definition js_or :: "json option \<Rightarrow> json \<Rightarrow> json" where
  "js_or v d = (case v of None \<Rightarrow> d | Some j \<Rightarrow> if truthy j then j else d)"

text \<open>\<open>s || d\<close> on a possibly absent query-string parameter.\<close>

definition str_or :: "string option \<Rightarrow> string \<Rightarrow> string" where
  "str_or v d = (case v of None \<Rightarrow> d | Some s \<Rightarrow> if s = [] then d else s)"

definition json_of_str_opt :: "string option \<Rightarrow> json" where
  "json_of_str_opt v = (case v of None \<Rightarrow> JNull | Some s \<Rightarrow> if s = [] then JNull else JStr s)"

definition json_of_int :: "int \<Rightarrow> json" where
  "json_of_int n = JNum (of_int n)"

subsection \<open>parseInt\<close>

text \<open>
  \<open>parseInt(string)\<close> with no radix, as ECMAScript defines it: leading white space is
  skipped, a sign is read, a \<open>0x\<close> or \<open>0X\<close> prefix selects radix 16, and the longest run of
  digits is the value; with no digit the result is \<open>NaN\<close>, here \<open>None\<close>. An absent
  argument is converted to the string \<open>undefined\<close> first. The white space of the model is
  the ASCII part of ECMAScript's.
\<close>

definition is_ws :: "char \<Rightarrow> bool" where
  "is_ws c = (c \<in> set [CHR 0x09, CHR 0x0A, CHR 0x0B, CHR 0x0C, CHR 0x0D, CHR 0x20])"

definition digit_table :: "(char \<times> nat) list" where
  "digit_table =
     [(CHR ''0'', 0), (CHR ''1'', 1), (CHR ''2'', 2), (CHR ''3'', 3), (CHR ''4'', 4),
      (CHR ''5'', 5), (CHR ''6'', 6), (CHR ''7'', 7), (CHR ''8'', 8), (CHR ''9'', 9),
      (CHR ''a'', 10), (CHR ''b'', 11), (CHR ''c'', 12), (CHR ''d'', 13), (CHR ''e'', 14),
      (CHR ''f'', 15), (CHR ''A'', 10), (CHR ''B'', 11), (CHR ''C'', 12), (CHR ''D'', 13),
      (CHR ''E'', 14), (CHR ''F'', 15)]"

definition digit_value :: "char \<Rightarrow> nat option" where
  "digit_value c = map_of digit_table c"

definition is_digit :: "nat \<Rightarrow> char \<Rightarrow> bool" where
  "is_digit r c = (case digit_value c of None \<Rightarrow> False | Some d \<Rightarrow> d < r)"

definition digits_value :: "nat \<Rightarrow> string \<Rightarrow> nat" where
  "digits_value r z = foldl (\<lambda>a c. a * r + (case digit_value c of None \<Rightarrow> 0 | Some d \<Rightarrow> d)) 0 z"

definition to_string :: "string option \<Rightarrow> string" where
  "to_string v = (case v of None \<Rightarrow> ''undefined'' | Some s \<Rightarrow> s)"

definition strip_sign :: "string \<Rightarrow> string" where
  "strip_sign s = (if take 1 s = ''-'' \<or> take 1 s = ''+'' then drop 1 s else s)"

definition parse_unsigned :: "string \<Rightarrow> nat option" where
  "parse_unsigned s =
     (let hex = (take 2 s = ''0x'' \<or> take 2 s = ''0X'');
          r = (if hex then 16 else 10);
          z = takeWhile (is_digit r) (if hex then drop 2 s else s)
      in if z = [] then None else Some (digits_value r z))"

definition parseInt :: "string option \<Rightarrow> int option" where
  "parseInt v =
     (let s = dropWhile is_ws (to_string v);
          sign = (if take 1 s = ''-'' then - 1 else 1)
      in map_option (\<lambda>n. sign * int n) (parse_unsigned (strip_sign s)))"

text \<open>\<open>parseInt(x) || d\<close>: \<open>NaN\<close> and \<open>0\<close> are falsy.\<close>

definition int_or :: "int option \<Rightarrow> int \<Rightarrow> int" where
  "int_or v d = (case v of None \<Rightarrow> d | Some n \<Rightarrow> if n = 0 then d else n)"

text \<open>\<open>String.prototype.trim\<close>, on the same white space.\<close>

definition trim :: "string \<Rightarrow> string" where
  "trim s = rev (dropWhile is_ws (rev (dropWhile is_ws s)))"

subsection \<open>Objects\<close>

definition obj_get :: "obj \<Rightarrow> string \<Rightarrow> json option" where
  "obj_get kvs k = map_of kvs k"

text \<open>\<open>o[k] = v\<close>: an existing key keeps its place, a new key goes last.\<close>

fun obj_set :: "string \<Rightarrow> json \<Rightarrow> obj \<Rightarrow> obj" where
  "obj_set k v [] = [(k, v)]"
| "obj_set k v ((k', v') # kvs) = (if k' = k then (k, v) # kvs else (k', v') # obj_set k v kvs)"

text \<open>\<open>x?.k\<close>: \<open>undefined\<close> when \<open>x\<close> is \<open>undefined\<close> or \<open>null\<close>, the property otherwise.\<close>

definition js_prop :: "json option \<Rightarrow> string \<Rightarrow> json option" where
  "js_prop x k = (case x of Some (JObj kvs) \<Rightarrow> obj_get kvs k | _ \<Rightarrow> None)"

text \<open>\<open>{...x}\<close>: the own properties of an object, none of \<open>null\<close>.\<close>

definition spread :: "json \<Rightarrow> obj" where
  "spread x = (case x of JObj kvs \<Rightarrow> kvs | _ \<Rightarrow> [])"

section \<open>The provider\<close>

text \<open>
  Every handler delegates storage and authentication to the Supabase client \<open>supabase\<close>.
  A query answers with an object \<open>{data, error, count}\<close>, or the awaited call throws and
  the handler's \<open>catch\<close> takes over. The client is a parameter of the handlers: a record
  with one function for each query the routes build.

  \<open>dives.js\<close> uses the name \<open>supabase\<close> without importing it. Its handlers are modelled
  like the others, with the client as their parameter, which is what the statements about
  them are about. As the file stands the name is unbound there: its first use throws inside
  the handler's \<open>try\<close> and the handler answers 500, as it does with the provider \<open>offline\<close>
  below, whose every query throws.

  Besides its response a handler returns the list of the queries it has issued, in order,
  so that what is sent to the provider, and how often, can be stated.
\<close>

record perror =
  err_code :: string
  err_message :: string

record 'a answer =
  data :: 'a
  error :: "perror option"
  count :: "int option"

datatype 'a reply = Threw | Gave "'a answer"

record auth_session =
  access_token :: json
  refresh_token :: json
  expires_at :: json

text \<open>
  The queries, with what the handler puts into them: the bounds of \<open>.range\<close>, the column
  and direction of \<open>.order\<close>, the value of \<open>.eq\<close> and \<open>.ilike\<close> filters, the row of an
  \<open>insert\<close> or \<open>update\<close>, the number of \<open>.limit\<close>. The answer of \<open>auth.signUp\<close> carries the
  new user's id and, when there is one, a session; the answer of \<open>auth.getUser\<close> carries
  the id of the token's user, or no user; the answer to the read of \<open>deepest_dive\<close> carries
  the number, \<open>null\<close>, or no row.
\<close>

datatype call =
    Users_range int int string bool
  | User_by_id string
  | Dive_stats string
  | User_update string obj
  | User_search string "string option" "string option" nat
  | Sign_up string string json
  | Users_insert obj
  | Get_user string
  | Dives_count string
  | Dives_insert obj
  | User_deepest string
  | User_counters string obj
  | Dives_range int int "string option" "string option" "string option"
  | Dive_by_id string

record provider =
  users_range :: "int \<Rightarrow> int \<Rightarrow> string \<Rightarrow> bool \<Rightarrow> json reply"
  user_by_id :: "string \<Rightarrow> json reply"
  dive_stats :: "string \<Rightarrow> string list option reply"
  user_update :: "string \<Rightarrow> obj \<Rightarrow> json reply"
  user_search :: "string \<Rightarrow> string option \<Rightarrow> string option \<Rightarrow> nat \<Rightarrow> json list option reply"
  sign_up :: "string \<Rightarrow> string \<Rightarrow> json \<Rightarrow> (string \<times> auth_session option) reply"
  users_insert :: "obj \<Rightarrow> obj reply"
  get_user_of_token :: "string \<Rightarrow> string option reply"
  dives_count :: "string \<Rightarrow> unit reply"
  dives_insert :: "obj \<Rightarrow> json reply"
  user_deepest :: "string \<Rightarrow> rat option option reply"
  user_counters :: "string \<Rightarrow> obj \<Rightarrow> unit reply"
  dives_range :: "int \<Rightarrow> int \<Rightarrow> string option \<Rightarrow> string option \<Rightarrow> string option \<Rightarrow> obj list option reply"
  dive_by_id :: "string \<Rightarrow> json reply"

section \<open>Responses\<close>

record response =
  status :: nat
  body :: obj

definition internal_error :: "string \<Rightarrow> response" where
  "internal_error what =
     \<lparr>status = 500, body = [(''error'', JStr ''Internal Server Error''), (''message'', JText what)]\<rparr>"

definition database_error :: "string \<Rightarrow> response" where
  "database_error what =
     \<lparr>status = 500, body = [(''error'', JStr ''Database Error''), (''message'', JText what)]\<rparr>"

definition not_found :: "string \<Rightarrow> response" where
  "not_found what =
     \<lparr>status = 404, body = [(''error'', JStr ''Not Found''), (''message'', JText what)]\<rparr>"

definition bad_request :: "string \<Rightarrow> obj \<Rightarrow> response" where
  "bad_request what extra =
     \<lparr>status = 400, body = [(''error'', JStr ''Bad Request''), (''message'', JText what)] @ extra\<rparr>"


section \<open>Identifier format\<close>

text \<open>
  \<^verbatim>\<open>/^[0-9a-f]{8}-[0-9a-f]{4}-[1-5][0-9a-f]{3}-[89ab][0-9a-f]{3}-[0-9a-f]{12}$/i\<close>:
  the pattern is anchored at both ends and has no alternation or unbounded repetition, so it
  is a list of 36 character classes, one for each position. The flag \<open>i\<close> lets either case
  of a letter match.
\<close>

definition hex_class :: "char \<Rightarrow> bool" where
  "hex_class c = (c \<in> set ''0123456789abcdefABCDEF'')"

definition dash_class :: "char \<Rightarrow> bool" where
  "dash_class c = (c = CHR ''-'')"

definition version_class :: "char \<Rightarrow> bool" where
  "version_class c = (c \<in> set ''12345'')"

definition variant_class :: "char \<Rightarrow> bool" where
  "variant_class c = (c \<in> set ''89abAB'')"

definition uuidRegex :: "(char \<Rightarrow> bool) list" where
  "uuidRegex =
     replicate 8 hex_class @ [dash_class] @
     replicate 4 hex_class @ [dash_class] @
     [version_class] @ replicate 3 hex_class @ [dash_class] @
     [variant_class] @ replicate 3 hex_class @ [dash_class] @
     replicate 12 hex_class"

fun regex_test :: "(char \<Rightarrow> bool) list \<Rightarrow> string \<Rightarrow> bool" where
  "regex_test [] [] = True"
| "regex_test (cl # cls) (c # cs) = (cl c \<and> regex_test cls cs)"
| "regex_test [] (c # cs) = False"
| "regex_test (cl # cls) [] = False"

section \<open>Users routes\<close>

subsection \<open>GET /api/users/list\<close>

text \<open>\<open>null\<close> is \<open>0\<close> in the arithmetic and the comparison on the row count.\<close>

definition count_num :: "int option \<Rightarrow> int" where
  "count_num c = (case c of None \<Rightarrow> 0 | Some n \<Rightarrow> n)"

definition json_of_count :: "int option \<Rightarrow> json" where
  "json_of_count c = (case c of None \<Rightarrow> JNull | Some n \<Rightarrow> json_of_int n)"

text \<open>\<open>Math.ceil(count / limit)\<close>; \<open>limit\<close> is never \<open>0\<close>, which \<open>||\<close> replaces.\<close>

definition total_pages :: "int option \<Rightarrow> int \<Rightarrow> int" where
  "total_pages c limit = \<lceil>rat_of_int (count_num c) / rat_of_int limit\<rceil>"

definition pagination :: "string \<Rightarrow> int \<Rightarrow> int \<Rightarrow> int \<Rightarrow> int option \<Rightarrow> obj" where
  "pagination total_key page limit startIndex c =
     [(''current_page'', json_of_int page),
      (''per_page'', json_of_int limit),
      (total_key, json_of_count c),
      (''total_pages'', json_of_int (total_pages c limit)),
      (''has_next'', JBool (startIndex + limit < count_num c)),
      (''has_prev'', JBool (page > 1))]"

text \<open>\<open>parseInt(req.query.page) || 1\<close> and \<open>parseInt(req.query.limit) || 10\<close>.\<close>

definition page_param :: "string option \<Rightarrow> int" where
  "page_param q_page = int_or (parseInt q_page) 1"

definition limit_param :: "string option \<Rightarrow> int" where
  "limit_param q_limit = int_or (parseInt q_limit) 10"

text \<open>
  The chain of \<open>if\<close> on \<open>sort\<close> (\<open>sortBy\<close> here): the column to order by, and whether
  ascending.
\<close>

definition sort_order :: "string \<Rightarrow> string \<times> bool" where
  "sort_order sortBy =
     (if sortBy = ''total_dives'' then (''total_dives'', False)
      else if sortBy = ''name'' then (''name'', True)
      else (''created_at'', False))"

definition users_list ::
  "provider \<Rightarrow> string option \<Rightarrow> string option \<Rightarrow> string option \<Rightarrow> response \<times> call list" where
  "users_list supabase q_page q_limit q_sort =
     (let page = page_param q_page;
          limit = limit_param q_limit;
          sortBy = str_or q_sort ''created_at'';
          startIndex = (page - 1) * limit;
          col = fst (sort_order sortBy);
          asc = snd (sort_order sortBy);
          issued = [Users_range startIndex (startIndex + limit - 1) col asc]
      in case users_range supabase startIndex (startIndex + limit - 1) col asc of
           Threw \<Rightarrow> (internal_error ''user list failed'', issued)
         | Gave a \<Rightarrow>
             if error a \<noteq> None then (database_error ''user list failed'', issued)
             else (\<lparr>status = 200,
                    body = [(''message'', JText ''user list ok''),
                            (''data'', data a),
                            (''pagination'', JObj (pagination ''total_users'' page limit startIndex (count a))),
                            (''sort'', JStr sortBy)]\<rparr>, issued))"

subsection \<open>GET /api/users/:id\<close>

text \<open>The \<open>reduce\<close> over the dive rows: one counter for each dive type, in order of first use.\<close>

definition bump_type :: "obj \<Rightarrow> string \<Rightarrow> obj" where
  "bump_type acc t =
     obj_set t (case js_or (obj_get acc t) (JNum 0) of JNum n \<Rightarrow> JNum (n + 1) | _ \<Rightarrow> JNum 1) acc"

definition dive_types :: "string list \<Rightarrow> obj" where
  "dive_types ts = foldl bump_type [] ts"

definition user_stats :: "string list option \<Rightarrow> json" where
  "user_stats diveStats =
     JObj [(''total_photos'', JNum 0),
           (''buddies_count'', JNum 0),
           (''recent_dives'', (case diveStats of None \<Rightarrow> JNum 0 | Some ts \<Rightarrow> json_of_int (int (length ts)))),
           (''dive_types'', (case diveStats of None \<Rightarrow> JObj [] | Some ts \<Rightarrow> JObj (dive_types ts)))]"

definition get_user :: "provider \<Rightarrow> string \<Rightarrow> response \<times> call list" where
  "get_user supabase userId =
     (if \<not> regex_test uuidRegex userId then
        (bad_request ''invalid user id format''
           [(''example'', JStr ''/api/users/123e4567-e89b-12d3-a456-426614174000'')], [])
      else case user_by_id supabase userId of
          Threw \<Rightarrow> (internal_error ''user profile failed'', [User_by_id userId])
        | Gave a \<Rightarrow>
            (case error a of
               Some e \<Rightarrow>
                 if err_code e = ''PGRST116'' then (not_found ''user not found'', [User_by_id userId])
                 else (database_error ''user lookup failed'', [User_by_id userId])
             | None \<Rightarrow>
                 (case dive_stats supabase userId of
                    Threw \<Rightarrow> (internal_error ''user profile failed'', [User_by_id userId, Dive_stats userId])
                  | Gave st \<Rightarrow>
                      (\<lparr>status = 200,
                        body = [(''message'', JText ''user profile ok''),
                                (''user'', JObj (obj_set ''stats'' (user_stats (data st)) (spread (data a))))]\<rparr>,
                       [User_by_id userId, Dive_stats userId]))))"

subsection \<open>PUT /api/users/:id\<close>

definition allowedFields :: "string list" where
  "allowedFields =
     [''name'', ''bio'', ''location'', ''diving_experience'',
      ''certifications'', ''social_links'', ''preferences'']"

text \<open>
  The \<open>forEach\<close> over \<open>allowedFields\<close>: a field is copied when \<open>updateData[field]\<close> is not
  \<open>undefined\<close>. The body is a parsed JSON object, where a key that is present has a value
  that is not \<open>undefined\<close>, and none of the seven names is inherited from \<open>Object.prototype\<close>.
\<close>

definition filteredData :: "(string \<rightharpoonup> json) \<Rightarrow> obj" where
  "filteredData updateData =
     List.map_filter (\<lambda>field. map_option (Pair field) (updateData field)) allowedFields"

text \<open>\<open>now\<close> is \<open>new Date().toISOString()\<close> at the time of the request.\<close>

definition put_user :: "provider \<Rightarrow> string \<Rightarrow> string \<Rightarrow> (string \<rightharpoonup> json) \<Rightarrow> response \<times> call list" where
  "put_user supabase now userId updateData =
     (if \<not> regex_test uuidRegex userId then (bad_request ''invalid user id format'' [], [])
      else if length (map fst (filteredData updateData)) = 0 then
        (bad_request ''nothing to update'' [(''allowed_fields'', JArr (map JStr allowedFields))], [])
      else
        (let written = filteredData updateData @ [(''updated_at'', JStr now)];
             issued = [User_update userId written]
         in case user_update supabase userId written of
              Threw \<Rightarrow> (internal_error ''profile update failed'', issued)
            | Gave a \<Rightarrow>
                (case error a of
                   Some e \<Rightarrow>
                     if err_code e = ''PGRST116'' then (not_found ''user not found'', issued)
                     else (database_error ''profile update failed'', issued)
                 | None \<Rightarrow>
                     (\<lparr>status = 200,
                       body = [(''message'', JText ''profile updated''),
                               (''user'', data a),
                               (''updated_fields'', JArr (map (JStr \<circ> fst) written))]\<rparr>, issued))))"

subsection \<open>GET /api/users/search\<close>

definition search_users ::
  "provider \<Rightarrow> string option \<Rightarrow> string option \<Rightarrow> string option \<Rightarrow> response \<times> call list" where
  "search_users supabase query location experience =
     (if str_or query [] = [] \<or> length (trim (str_or query [])) < 2 then
        (bad_request ''search term needs 2 characters''
           [(''example'', JText ''/api/users/search?q=...&location=...'')], [])
      else
        (let q = str_or query [];
             loc = (if str_or location [] = [] then None else location);
             expr = (if str_or experience [] = [] then None else experience);
             issued = [User_search q loc expr 20]
         in case user_search supabase q loc expr 20 of
              Threw \<Rightarrow> (internal_error ''user search failed'', issued)
            | Gave a \<Rightarrow>
                if error a \<noteq> None then (database_error ''user search failed'', issued)
                else (case data a of
                        None \<Rightarrow> (internal_error ''user search failed'', issued)
                      | Some searchResults \<Rightarrow>
                          (\<lparr>status = 200,
                            body = [(''message'', JText ''user search ok''),
                                    (''query'', JObj [(''search_term'', JStr q),
                                                      (''location_filter'', json_of_str_opt location),
                                                      (''experience_filter'', json_of_str_opt experience)]),
                                    (''results'', JArr searchResults),
                                    (''total_found'', json_of_int (int (length searchResults)))]\<rparr>,
                           issued))))"

subsection \<open>The router\<close>

text \<open>
  \<open>users.js\<close> registers its routes in this order: \<open>GET /\<close>, \<open>GET /list\<close>, \<open>GET /:id\<close>,
  \<open>PUT /:id\<close>, \<open>GET /search\<close>. Express hands a request to the first route whose method and
  path match; \<open>/:id\<close> matches every path of one segment, and no handler passes the request
  on. The path is the list of its segments below the mount point \<open>/api/users\<close>. A request
  that no route takes is left to the application (\<open>None\<close>).
\<close>

datatype http_method = GET | PUT | POST | DELETE

record request =
  req_method :: http_method
  req_path :: "string list"
  req_query :: "string \<rightharpoonup> string"
  req_body :: "string \<rightharpoonup> json"

definition users_home :: response where
  "users_home =
     \<lparr>status = 200,
      body = [(''message'', JText ''Users API''),
              (''available_endpoints'',
                 JObj [(''list'', JText ''GET /api/users''),
                       (''profile'', JText ''GET /api/users/:id''),
                       (''update'', JText ''PUT /api/users/:id''),
                       (''settings'', JText ''GET/PUT /api/users/:id/settings''),
                       (''search'', JText ''GET /api/users/search?q=keyword''),
                       (''buddies'', JText ''GET /api/users/:id/buddies'')])]\<rparr>"

definition users_router :: "provider \<Rightarrow> string \<Rightarrow> request \<Rightarrow> (response \<times> call list) option" where
  "users_router supabase now req =
     (if req_method req = GET \<and> req_path req = [] then Some (users_home, [])
      else if req_method req = GET \<and> req_path req = [''list''] then
        Some (users_list supabase (req_query req ''page'') (req_query req ''limit'') (req_query req ''sort''))
      else if req_method req = GET \<and> length (req_path req) = 1 then
        Some (get_user supabase (hd (req_path req)))
      else if req_method req = PUT \<and> length (req_path req) = 1 then
        Some (put_user supabase now (hd (req_path req)) (req_body req))
      else if req_method req = GET \<and> req_path req = [''search''] then
        Some (search_users supabase (req_query req ''q'') (req_query req ''location'')
                (req_query req ''experience''))
      else None)"

section \<open>Authentication routes\<close>

subsection \<open>POST /api/auth/register\<close>

text \<open>
  The body of a registration. \<open>email\<close>, \<open>password\<close> and \<open>name\<close> are strings when they are
  present (\<open>None\<close>: absent or \<open>null\<close>), so that \<open>password.length\<close> is the length of a string.
\<close>

record register_body =
  email :: "string option"
  password :: "string option"
  name :: "string option"
  diving_experience :: "json option"
  location :: "json option"

text \<open>\<open>s.includes(sub)\<close>.\<close>

fun str_includes :: "string \<Rightarrow> string \<Rightarrow> bool" where
  "str_includes [] sub = (sub = [])"
| "str_includes (c # cs) sub = (take (length sub) (c # cs) = sub \<or> str_includes cs sub)"

text \<open>An object literal: a property whose value is \<open>undefined\<close> is not serialised.\<close>

definition own_prop :: "string \<Rightarrow> json option \<Rightarrow> obj" where
  "own_prop k v = (case v of None \<Rightarrow> [] | Some j \<Rightarrow> [(k, j)])"

definition pick :: "obj \<Rightarrow> string list \<Rightarrow> obj" where
  "pick row ks = concat (map (\<lambda>k. own_prop k (obj_get row k)) ks)"

definition auth_fields :: "auth_session option \<Rightarrow> obj" where
  "auth_fields session =
     (case session of
        None \<Rightarrow> []
      | Some s \<Rightarrow> [(''access_token'', access_token s),
                   (''refresh_token'', refresh_token s),
                   (''expires_at'', expires_at s)])"

definition register :: "provider \<Rightarrow> string \<Rightarrow> register_body \<Rightarrow> response \<times> call list" where
  "register supabase now b =
     (if str_or (email b) [] = [] \<or> str_or (password b) [] = [] \<or> str_or (name b) [] = [] then
        (bad_request ''email, password and name are required''
           [(''required_fields'', JArr [JStr ''email'', JStr ''password'', JStr ''name''])], [])
      else if length (str_or (password b) []) < 6 then
        (bad_request ''password needs 6 characters'' [], [])
      else
        (let em = str_or (email b) [];
             pw = str_or (password b) [];
             nm = str_or (name b) [];
             experience = js_or (diving_experience b) (JStr ''beginner'');
             meta = JObj [(''name'', JStr nm), (''diving_experience'', experience)];
             c1 = Sign_up em pw meta
         in case sign_up supabase em pw meta of
              Threw \<Rightarrow> (internal_error ''registration failed'', [c1])
            | Gave authData \<Rightarrow>
                (case error authData of
                   Some authError \<Rightarrow>
                     if str_includes (err_message authError) ''already registered'' then
                       (\<lparr>status = 409,
                         body = [(''error'', JStr ''Conflict''),
                                 (''message'', JText ''email already registered''),
                                 (''code'', JStr ''EMAIL_ALREADY_EXISTS'')]\<rparr>, [c1])
                     else
                       (\<lparr>status = 400,
                         body = [(''error'', JStr ''Auth Error''),
                                 (''message'', JStr (err_message authError))]\<rparr>, [c1])
                 | None \<Rightarrow>
                     (let row = [(''id'', JStr (fst (data authData))),
                                 (''email'', JStr em),
                                 (''name'', JStr nm),
                                 (''diving_experience'', experience),
                                 (''location'', js_or (location b) JNull),
                                 (''total_dives'', JNum 0),
                                 (''created_at'', JStr now)];
                          c2 = Users_insert row
                      in case users_insert supabase row of
                           Threw \<Rightarrow> (internal_error ''registration failed'', [c1, c2])
                         | Gave userData \<Rightarrow>
                             (case error userData of
                                Some userError \<Rightarrow>
                                  (\<lparr>status = 500,
                                    body = [(''error'', JStr ''Database Error''),
                                            (''message'', JText ''saving the user failed''),
                                            (''details'', JStr (err_message userError))]\<rparr>, [c1, c2])
                              | None \<Rightarrow>
                                  (\<lparr>status = 201,
                                    body = [(''message'', JText ''registered''),
                                            (''user'', JObj (pick (data userData)
                                               [''id'', ''email'', ''name'', ''diving_experience'',
                                                ''location'', ''created_at''])),
                                            (''auth'', JObj (auth_fields (snd (data authData)))),
                                            (''note'', JText ''email verification may be needed'')]\<rparr>,
                                   [c1, c2]))))))"

section \<open>Dives routes\<close>

subsection \<open>POST /api/dives/create\<close>







text \<open>
  \<open>!currentUser?.deepest_dive || max_depth > currentUser.deepest_dive\<close>. The answer's data is
  \<open>None\<close> when no row came back, \<open>Some None\<close> for a row whose \<open>deepest_dive\<close> is \<open>null\<close>.
\<close>

definition depth_record :: "rat option option \<Rightarrow> rat option \<Rightarrow> bool" where
  "depth_record currentUser depth =
     (case currentUser of
        None \<Rightarrow> True
      | Some None \<Rightarrow> True
      | Some (Some deepest) \<Rightarrow>
          deepest = 0 \<or> (case depth of None \<Rightarrow> False | Some d \<Rightarrow> d > deepest))"

definition updateData :: "int \<Rightarrow> string \<Rightarrow> rat option option \<Rightarrow> rat option \<Rightarrow> obj" where
  "updateData nextDiveNumber now currentUser depth =
     [(''total_dives'', json_of_int nextDiveNumber), (''updated_at'', JStr now)] @
     (if depth_record currentUser depth then own_prop ''deepest_dive'' (map_option JNum depth) else [])"



subsection \<open>GET /api/dives/list\<close>




subsection \<open>GET /api/dives/:id\<close>



section \<open>A provider in memory\<close>

text \<open>
  The statements about several dives created in a row need a provider that remembers what it
  was sent. This one holds the two tables as lists of rows and a table of the valid tokens,
  and answers the five queries of \<open>dives_create\<close> without error: the count of a user's dives
  is the number of stored dives with that \<open>user_id\<close>, an inserted dive is appended and
  returned as it was sent (the provider's generated columns are left out), and an update of
  a user's counters overwrites the properties it names on the rows with that \<open>id\<close>. It
  answers the queries of one request from the tables as they are when the request arrives;
  in \<open>dives_create\<close> the count is read before the insert and the only read after it is of
  the \<open>users\<close> table, which the insert does not touch. The queries a handler has issued are
  then applied in order. Every other query is outside this provider and throws, as every
  query of \<open>offline\<close> does.
\<close>

definition offline :: provider where
  "offline =
     \<lparr>users_range = (\<lambda>a b col asc. Threw),
      user_by_id = (\<lambda>uid. Threw),
      dive_stats = (\<lambda>uid. Threw),
      user_update = (\<lambda>uid upd. Threw),
      user_search = (\<lambda>q loc expr n. Threw),
      sign_up = (\<lambda>em pw meta. Threw),
      users_insert = (\<lambda>row. Threw),
      get_user_of_token = (\<lambda>token. Threw),
      dives_count = (\<lambda>uid. Threw),
      dives_insert = (\<lambda>row. Threw),
      user_deepest = (\<lambda>uid. Threw),
      user_counters = (\<lambda>uid upd. Threw),
      dives_range = (\<lambda>a b u t l. Threw),
      dive_by_id = (\<lambda>did. Threw)\<rparr>"

record db =
  users :: "obj list"
  dives :: "obj list"
  sessions :: "string \<rightharpoonup> string"



definition ok :: "'a \<Rightarrow> 'a reply" where
  "ok x = Gave \<lparr>data = x, error = None, count = None\<rparr>"





section \<open>The identifier format in the specification's words\<close>

text \<open>
  The specification describes an identifier as five groups of hexadecimal digits, of 8, 4,
  4, 4 and 12 digits, separated by dashes, where the first digit of the third group (the
  version nibble) is 1 to 5 and the first digit of the fourth group (the variant nibble)
  is 8, 9, a or b. \<open>uuid_v4_text\<close> says this of a string, by cutting it at its dashes and
  reading nibbles as numbers; it is compared with \<open>uuidRegex\<close> below.
\<close>

fun split_dash :: "string \<Rightarrow> string list" where
  "split_dash [] = [[]]"
| "split_dash (c # cs) =
     (if c = CHR ''-'' then [] # split_dash cs
      else (case split_dash cs of [] \<Rightarrow> [[c]] | g # gs \<Rightarrow> (c # g) # gs))"

fun join_dash :: "string list \<Rightarrow> string" where
  "join_dash [] = []"
| "join_dash [g] = g"
| "join_dash (g # h # gs) = g @ CHR ''-'' # join_dash (h # gs)"

definition nibble_between :: "nat \<Rightarrow> nat \<Rightarrow> string \<Rightarrow> bool" where
  "nibble_between lo hi g =
     (case g of
        [] \<Rightarrow> False
      | c # cs \<Rightarrow> (case digit_value c of None \<Rightarrow> False | Some v \<Rightarrow> lo \<le> v \<and> v \<le> hi))"

definition uuid_v4_text :: "string \<Rightarrow> bool" where
  "uuid_v4_text s =
     (case split_dash s of
        [g1, g2, g3, g4, g5] \<Rightarrow>
          map length [g1, g2, g3, g4, g5] = [8, 4, 4, 4, 12]
          \<and> list_all (is_digit 16) (concat [g1, g2, g3, g4, g5])
          \<and> nibble_between 1 5 g3 \<and> nibble_between 8 11 g4
      | _ \<Rightarrow> False)"

section \<open>A new user and a dive\<close>





section \<open>Providers that fail\<close>



definition failed :: "perror \<Rightarrow> 'a \<Rightarrow> 'a reply" where
  "failed e nothing = Gave \<lparr>data = nothing, error = Some e, count = None\<rparr>"

definition failing :: "perror \<Rightarrow> provider" where
  "failing e =
     \<lparr>users_range = (\<lambda>a b col asc. failed e JNull),
      user_by_id = (\<lambda>uid. failed e JNull),
      dive_stats = (\<lambda>uid. failed e None),
      user_update = (\<lambda>uid upd. failed e JNull),
      user_search = (\<lambda>q loc expr n. failed e None),
      sign_up = (\<lambda>em pw meta. failed e ([], None)),
      users_insert = (\<lambda>row. failed e []),
      get_user_of_token = (\<lambda>token. failed e None),
      dives_count = (\<lambda>uid. failed e ()),
      dives_insert = (\<lambda>row. failed e JNull),
      user_deepest = (\<lambda>uid. failed e None),
      user_counters = (\<lambda>uid upd. failed e ()),
      dives_range = (\<lambda>a b u t l. failed e None),
      dive_by_id = (\<lambda>did. failed e JNull)\<rparr>"

section \<open>Pagination, sorting and the defaults of the list routes\<close>




text \<open>
  C7. For every value of the \<open>sort\<close> parameter, \<open>GET /api/users/list\<close> orders by
  \<open>total_dives\<close> descending when it is \<open>total_dives\<close>, by \<open>name\<close> ascending when it is \<open>name\<close>,
  and by \<open>created_at\<close> descending for every other value and when it is absent. No value of
  the parameter is an error: the response is 200 whenever the provider answers without
  error, and 500 otherwise.
\<close>

theorem sort_mapping:
  "snd (users_list supabase q_page q_limit q_sort) =
     [Users_range ((page_param q_page - 1) * limit_param q_limit)
        ((page_param q_page - 1) * limit_param q_limit + limit_param q_limit - 1)
        (if q_sort = Some ''total_dives'' then ''total_dives''
         else if q_sort = Some ''name'' then ''name'' else ''created_at'')
        (q_sort = Some ''name'')]
   \<and> status (fst (users_list supabase q_page q_limit q_sort)) \<in> {200, 500}
   \<and> (\<forall>a. users_range supabase ((page_param q_page - 1) * limit_param q_limit)
              ((page_param q_page - 1) * limit_param q_limit + limit_param q_limit - 1)
              (if q_sort = Some ''total_dives'' then ''total_dives''
               else if q_sort = Some ''name'' then ''name'' else ''created_at'')
              (q_sort = Some ''name'') = Gave a \<and> error a = None
          \<longrightarrow> status (fst (users_list supabase q_page q_limit q_sort)) = 200)"
  by (cases q_sort)
     (auto simp: users_list_def Let_def sort_order_def str_or_def internal_error_def
        database_error_def split: reply.splits)

theorem sort_mapping_witness:
  "snd (users_list
     (offline\<lparr>users_range := (\<lambda>a b col asc. Gave \<lparr>data = JArr [], error = None, count = Some 0\<rparr>)\<rparr>)
     None None (Some ''bogus'')) = [Users_range 0 9 ''created_at'' False]
   \<and> status (fst (users_list
     (offline\<lparr>users_range := (\<lambda>a b col asc. Gave \<lparr>data = JArr [], error = None, count = Some 0\<rparr>)\<rparr>)
     None None (Some ''bogus''))) = 200"
proof -
  have p: "page_param None = 1" "limit_param None = 10" by code_simp+
  show ?thesis
    using sort_mapping [of "offline\<lparr>users_range :=
        (\<lambda>a b col asc. Gave \<lparr>data = JArr [], error = None, count = Some 0\<rparr>)\<rparr>" None None "Some ''bogus''"]
    by (simp add: p)
qed






section \<open>The identifier check\<close>

lemma hex_iff: "hex_class c \<longleftrightarrow> is_digit 16 c"
  by (simp add: hex_class_def is_digit_def digit_value_def digit_table_def)

lemma version_iff: "version_class c \<longleftrightarrow> nibble_between 1 5 (c # cs) \<and> is_digit 16 c"
  by (simp add: version_class_def nibble_between_def is_digit_def digit_value_def digit_table_def)

lemma variant_iff: "variant_class c \<longleftrightarrow> nibble_between 8 11 (c # cs) \<and> is_digit 16 c"
  by (simp add: variant_class_def nibble_between_def is_digit_def digit_value_def digit_table_def)

lemma hex_not_dash: "is_digit 16 c \<Longrightarrow> c \<noteq> CHR ''-''"
  by (auto simp: is_digit_def digit_value_def digit_table_def)

lemma split_dash_nonempty: "split_dash s \<noteq> []"
  by (induction s) (auto split: list.splits)

lemma split_dash_group:
  "list_all (is_digit 16) g \<Longrightarrow> split_dash (g @ CHR ''-'' # rest) = g # split_dash rest"
  by (induction g) (auto dest: hex_not_dash)

lemma split_dash_last: "list_all (is_digit 16) g \<Longrightarrow> split_dash g = [g]"
  by (induction g) (auto dest: hex_not_dash)

lemma join_split: "join_dash (split_dash s) = s"
proof (induction s)
  case Nil show ?case by simp
next
  case (Cons c s)
  obtain g gs where sp: "split_dash s = g # gs"
    using split_dash_nonempty[of s] by (cases "split_dash s") auto
  show ?case using Cons sp by (cases gs) auto
qed

lemma regex_replicate:
  "regex_test (replicate n p @ rest) s \<longleftrightarrow>
     n \<le> length s \<and> list_all p (take n s) \<and> regex_test rest (drop n s)"
proof (induction n arbitrary: s)
  case 0 show ?case by simp
next
  case (Suc n) show ?case by (cases s) (auto simp: Suc)
qed

lemma regex_one:
  "regex_test (p # rest) s \<longleftrightarrow> (\<exists>c cs. s = c # cs \<and> p c \<and> regex_test rest cs)"
  by (cases s) auto

lemma regex_nil: "regex_test [] s \<longleftrightarrow> s = []"
  by (cases s) auto

lemma regex_replicate_ex:
  "regex_test (replicate n p @ rest) s \<longleftrightarrow>
     (\<exists>g r. s = g @ r \<and> length g = n \<and> list_all p g \<and> regex_test rest r)"
proof
  assume "regex_test (replicate n p @ rest) s"
  then have "s = take n s @ drop n s \<and> length (take n s) = n \<and> list_all p (take n s)
             \<and> regex_test rest (drop n s)"
    by (simp add: regex_replicate)
  then show "\<exists>g r. s = g @ r \<and> length g = n \<and> list_all p g \<and> regex_test rest r"
    by blast
next
  assume "\<exists>g r. s = g @ r \<and> length g = n \<and> list_all p g \<and> regex_test rest r"
  then show "regex_test (replicate n p @ rest) s"
    by (auto simp: regex_replicate)
qed

lemma regex_replicate_end:
  "regex_test (replicate n p) s \<longleftrightarrow> length s = n \<and> list_all p s"
  using regex_replicate [of n p "[]" s] by (auto simp: regex_nil)

lemma uuidRegex_groups:
  "regex_test uuidRegex s \<longleftrightarrow>
     (\<exists>g1 g2 v g3 w g4 g5.
        s = g1 @ CHR ''-'' # g2 @ CHR ''-'' # v # g3 @ CHR ''-'' # w # g4 @ CHR ''-'' # g5
        \<and> length g1 = 8 \<and> length g2 = 4 \<and> length g3 = 3 \<and> length g4 = 3 \<and> length g5 = 12
        \<and> list_all hex_class g1 \<and> list_all hex_class g2 \<and> list_all hex_class g3
        \<and> list_all hex_class g4 \<and> list_all hex_class g5 \<and> version_class v \<and> variant_class w)"
  (is "?L \<longleftrightarrow> ?R")
proof
  assume ?L
  then obtain g1 g2 v g3 w g4 g5 where
    "s = g1 @ CHR ''-'' # g2 @ CHR ''-'' # v # g3 @ CHR ''-'' # w # g4 @ CHR ''-'' # g5"
    "length g1 = 8" "length g2 = 4" "length g3 = 3" "length g4 = 3" "length g5 = 12"
    "list_all hex_class g1" "list_all hex_class g2" "list_all hex_class g3"
    "list_all hex_class g4" "list_all hex_class g5" "version_class v" "variant_class w"
    unfolding uuidRegex_def
    by (auto simp: regex_replicate_ex regex_replicate_end regex_one dash_class_def)
  then show ?R by blast
next
  assume ?R
  then show ?L
    unfolding uuidRegex_def
    by (auto simp: regex_replicate regex_replicate_end regex_one regex_nil dash_class_def)
qed

lemma uuid_regex_is_text: "regex_test uuidRegex s \<longleftrightarrow> uuid_v4_text s"
proof
  assume "regex_test uuidRegex s"
  then obtain g1 g2 v g3 w g4 g5 where s:
    "s = g1 @ CHR ''-'' # g2 @ CHR ''-'' # v # g3 @ CHR ''-'' # w # g4 @ CHR ''-'' # g5"
    and len: "length g1 = 8" "length g2 = 4" "length g3 = 3" "length g4 = 3" "length g5 = 12"
    and hex: "list_all hex_class g1" "list_all hex_class g2" "list_all hex_class g3"
             "list_all hex_class g4" "list_all hex_class g5"
    and vw: "version_class v" "variant_class w"
    unfolding uuidRegex_groups by blast
  have h: "list_all (is_digit 16) g1" "list_all (is_digit 16) g2" "list_all (is_digit 16) (v # g3)"
    "list_all (is_digit 16) (w # g4)" "list_all (is_digit 16) g5"
    using hex vw version_iff[of v g3] variant_iff[of w g4] by (auto simp: hex_iff list_all_iff)
  have "split_dash s = [g1, g2, v # g3, w # g4, g5]"
    unfolding s using split_dash_group[OF h(1)] split_dash_group[OF h(2)]
        split_dash_group[OF h(3)] split_dash_group[OF h(4)] split_dash_last[OF h(5)]
    by simp
  then show "uuid_v4_text s"
    using len h vw version_iff[of v g3] variant_iff[of w g4]
    by (simp add: uuid_v4_text_def)
next
  assume a: "uuid_v4_text s"
  then obtain g1 g2 g3 g4 g5 where sp: "split_dash s = [g1, g2, g3, g4, g5]"
    by (auto simp: uuid_v4_text_def split: list.splits)
  from a sp have len: "length g1 = 8" "length g2 = 4" "length g3 = 4" "length g4 = 4" "length g5 = 12"
    and hex: "list_all (is_digit 16) (g1 @ g2 @ g3 @ g4 @ g5)"
    and nib: "nibble_between 1 5 g3" "nibble_between 8 11 g4"
    by (simp_all add: uuid_v4_text_def)
  obtain v g3' where g3: "g3 = v # g3'" using len(3) by (cases g3) auto
  obtain w g4' where g4: "g4 = w # g4'" using len(4) by (cases g4) auto
  have s: "s = g1 @ CHR ''-'' # g2 @ CHR ''-'' # v # g3' @ CHR ''-'' # w # g4' @ CHR ''-'' # g5"
    using join_split[of s] unfolding sp g3 g4 by simp
  have vw: "version_class v" "variant_class w"
    using nib hex unfolding g3 g4 by (simp_all add: version_iff[of v g3'] variant_iff[of w g4'])
  have hx: "list_all hex_class g1" "list_all hex_class g2" "list_all hex_class g3'"
    "list_all hex_class g4'" "list_all hex_class g5"
    using hex unfolding g3 g4 by (simp_all add: hex_iff list_all_iff)
  have ln: "length g3' = 3" "length g4' = 3" using len unfolding g3 g4 by simp_all
  show "regex_test uuidRegex s"
    unfolding uuidRegex_groups using s len(1,2,5) ln hx vw by blast
qed






section \<open>The update of a profile\<close>

lemma pick_fields_keys:
  "map fst (List.map_filter (\<lambda>field. map_option (Pair field) (upd field)) xs)
     = filter (\<lambda>k. k \<in> dom upd) xs"
  by (induction xs) (auto simp: List.map_filter_simps split: option.splits)

lemma pick_fields_values:
  "map_of (List.map_filter (\<lambda>field. map_option (Pair field) (upd field)) xs) k
     = (if k \<in> set xs then upd k else None)"
  by (induction xs) (auto simp: List.map_filter_simps split: option.splits)

lemma filteredData_order:
  "map fst (filteredData upd) = filter (\<lambda>k. k \<in> dom upd) allowedFields"
  unfolding filteredData_def by (rule pick_fields_keys)

lemma filteredData_keys: "set (map fst (filteredData upd)) = dom upd \<inter> set allowedFields"
  unfolding filteredData_order by auto

lemma filteredData_values:
  "map_of (filteredData upd) k = (if k \<in> set allowedFields then upd k else None)"
  unfolding filteredData_def by (rule pick_fields_values)

lemma filteredData_empty: "filteredData upd = [] \<longleftrightarrow> dom upd \<inter> set allowedFields = {}"
proof -
  have "filteredData upd = [] \<longleftrightarrow> set (map fst (filteredData upd)) = {}" by simp
  then show ?thesis unfolding filteredData_keys .
qed


text \<open>
  C3. The object built from the body of \<open>PUT /api/users/:id\<close> has exactly the keys that
  are both in the body and in the allow-list of seven names, each with the value the body
  gives it, and the object sent to the provider is this one followed by \<open>updated_at\<close> with
  the server's time. When the body has no allow-listed key the answer is 400, nothing is
  sent, and for a well-formed identifier the answer lists the allowed fields. The filtered
  object depends on the body alone; the body \<open>{name: "x"}\<close> gives
  \<open>{name: "x", updated_at: now}\<close>.
\<close>

theorem update_filter:
  "set (map fst (filteredData upd)) = dom upd \<inter> set allowedFields
   \<and> set allowedFields =
       {''name'', ''bio'', ''location'', ''diving_experience'', ''certifications'',
        ''social_links'', ''preferences''}
   \<and> map_of (filteredData upd) k = (if k \<in> set allowedFields then upd k else None)
   \<and> (dom upd \<inter> set allowedFields = {} \<longrightarrow>
         status (fst (put_user supabase now userId upd)) = 400
       \<and> snd (put_user supabase now userId upd) = [])
   \<and> (uuid_v4_text userId \<and> dom upd \<inter> set allowedFields = {} \<longrightarrow>
         obj_get (body (fst (put_user supabase now userId upd))) ''allowed_fields''
           = Some (JArr (map JStr allowedFields)))
   \<and> (uuid_v4_text userId \<and> dom upd \<inter> set allowedFields \<noteq> {} \<longrightarrow>
         snd (put_user supabase now userId upd)
           = [User_update userId (filteredData upd @ [(''updated_at'', JStr now)])])
   \<and> filteredData [''name'' \<mapsto> JStr ''x''] @ [(''updated_at'', JStr now)]
       = [(''name'', JStr ''x''), (''updated_at'', JStr now)]"
proof (intro conjI impI)
  show "set (map fst (filteredData upd)) = dom upd \<inter> set allowedFields"
    by (rule filteredData_keys)
  show "set allowedFields =
       {''name'', ''bio'', ''location'', ''diving_experience'', ''certifications'',
        ''social_links'', ''preferences''}"
    by (simp add: allowedFields_def)
  show "map_of (filteredData upd) k = (if k \<in> set allowedFields then upd k else None)"
    by (rule filteredData_values)
  show "filteredData [''name'' \<mapsto> JStr ''x''] @ [(''updated_at'', JStr now)]
       = [(''name'', JStr ''x''), (''updated_at'', JStr now)]"
    by (simp add: filteredData_def allowedFields_def List.map_filter_simps)
next
  assume "dom upd \<inter> set allowedFields = {}"
  then have e: "filteredData upd = []" by (simp add: filteredData_empty)
  show "status (fst (put_user supabase now userId upd)) = 400"
    by (simp add: put_user_def bad_request_def e)
  show "snd (put_user supabase now userId upd) = []"
    by (simp add: put_user_def bad_request_def e)
next
  assume "uuid_v4_text userId \<and> dom upd \<inter> set allowedFields = {}"
  then have e: "filteredData upd = []" and r: "regex_test uuidRegex userId"
    by (simp_all add: filteredData_empty uuid_regex_is_text)
  show "obj_get (body (fst (put_user supabase now userId upd))) ''allowed_fields''
           = Some (JArr (map JStr allowedFields))"
    by (simp add: put_user_def bad_request_def obj_get_def e r)
next
  assume "uuid_v4_text userId \<and> dom upd \<inter> set allowedFields \<noteq> {}"
  then have e: "filteredData upd \<noteq> []" and r: "regex_test uuidRegex userId"
    by (simp_all add: filteredData_empty uuid_regex_is_text)
  show "snd (put_user supabase now userId upd)
           = [User_update userId (filteredData upd @ [(''updated_at'', JStr now)])]"
    using e r by (simp add: put_user_def Let_def split: reply.splits option.splits)
qed


theorem update_filter_witness:
  "dom [''id'' \<mapsto> JStr ''u2'', ''email'' \<mapsto> JStr ''e''] \<inter> set allowedFields = {}
   \<and> uuid_v4_text ''123e4567-e89b-12d3-a456-426614174000''
   \<and> status (fst (put_user offline ''t'' ''123e4567-e89b-12d3-a456-426614174000''
        [''id'' \<mapsto> JStr ''u2'', ''email'' \<mapsto> JStr ''e''])) = 400
   \<and> obj_get (body (fst (put_user offline ''t'' ''123e4567-e89b-12d3-a456-426614174000''
        [''id'' \<mapsto> JStr ''u2'', ''email'' \<mapsto> JStr ''e'']))) ''allowed_fields''
      = Some (JArr [JStr ''name'', JStr ''bio'', JStr ''location'', JStr ''diving_experience'',
                    JStr ''certifications'', JStr ''social_links'', JStr ''preferences''])
   \<and> dom [''name'' \<mapsto> JStr ''x'', ''id'' \<mapsto> JStr ''u2''] \<inter> set allowedFields = {''name''}
   \<and> snd (put_user offline ''t'' ''123e4567-e89b-12d3-a456-426614174000''
        [''name'' \<mapsto> JStr ''x'', ''id'' \<mapsto> JStr ''u2''])
      = [User_update ''123e4567-e89b-12d3-a456-426614174000''
           [(''name'', JStr ''x''), (''updated_at'', JStr ''t'')]]"
proof -
  let ?id = "''123e4567-e89b-12d3-a456-426614174000''"
  have a: "uuid_v4_text ?id" by code_simp
  have d1: "dom [''id'' \<mapsto> JStr ''u2'', ''email'' \<mapsto> JStr ''e''] \<inter> set allowedFields = {}"
    by (simp add: allowedFields_def)
  have d2: "dom [''name'' \<mapsto> JStr ''x'', ''id'' \<mapsto> JStr ''u2''] \<inter> set allowedFields = {''name''}"
    by (auto simp: allowedFields_def)
  have f2: "filteredData [''name'' \<mapsto> JStr ''x'', ''id'' \<mapsto> JStr ''u2''] = [(''name'', JStr ''x'')]"
    by (simp add: filteredData_def allowedFields_def List.map_filter_simps)
  have l: "map JStr allowedFields =
      [JStr ''name'', JStr ''bio'', JStr ''location'', JStr ''diving_experience'',
       JStr ''certifications'', JStr ''social_links'', JStr ''preferences'']"
    by (simp add: allowedFields_def)
  show ?thesis
    using update_filter [of "[''id'' \<mapsto> JStr ''u2'', ''email'' \<mapsto> JStr ''e'']" "''name''" offline "''t''" ?id]
      update_filter [of "[''name'' \<mapsto> JStr ''x'', ''id'' \<mapsto> JStr ''u2'']" "''name''" offline "''t''" ?id ]
      a d1 d2 f2 l
    by simp
qed


lemma put_user_calls:
  "snd (put_user supabase now userId upd) = []
   \<or> snd (put_user supabase now userId upd)
       = [User_update userId (filteredData upd @ [(''updated_at'', JStr now)])]"
  by (simp add: put_user_def Let_def split: reply.splits option.splits)

lemma put_user_route:
  "req_method req = PUT \<Longrightarrow> users_router supabase now req = Some r \<Longrightarrow>
     r = put_user supabase now (hd (req_path req)) (req_body req)"
  by (simp add: users_router_def split: if_splits)

text \<open>
  C9. Whatever the body of \<open>PUT /api/users/:id\<close> holds, every query the handler sends is
  an update of the row with the identifier of the path, and the object it writes has only
  keys of the allow-list and \<open>updated_at\<close>: neither \<open>id\<close> nor \<open>email\<close> is written. The
  same holds of every \<open>PUT\<close> request the router takes.
\<close>

theorem update_frame:
  "(\<forall>c \<in> set (snd (put_user supabase now userId upd)).
      \<exists>written. c = User_update userId written
        \<and> set (map fst written) \<subseteq> set allowedFields \<union> {''updated_at''}
        \<and> ''id'' \<notin> set (map fst written) \<and> ''email'' \<notin> set (map fst written))
   \<and> (req_method req = PUT \<and> users_router supabase now req = Some r \<longrightarrow>
        (\<forall>c \<in> set (snd r). \<exists>target written. c = User_update target written
             \<and> ''id'' \<notin> set (map fst written) \<and> ''email'' \<notin> set (map fst written)))"
proof -
  have n: "''id'' \<notin> set allowedFields \<union> {''updated_at''}"
          "''email'' \<notin> set allowedFields \<union> {''updated_at''}"
    by (simp_all add: allowedFields_def)
  have h: "\<forall>c \<in> set (snd (put_user supabase now uid upd')).
      \<exists>written. c = User_update uid written
        \<and> set (map fst written) \<subseteq> set allowedFields \<union> {''updated_at''}
        \<and> ''id'' \<notin> set (map fst written) \<and> ''email'' \<notin> set (map fst written)" for uid upd'
  proof -
    let ?w = "filteredData upd' @ [(''updated_at'', JStr now)]"
    have k: "set (map fst ?w) \<subseteq> set allowedFields \<union> {''updated_at''}"
      unfolding map_append set_append filteredData_keys
      by simp (rule subset_trans[OF Int_lower2 subset_insertI])
    have i: "''id'' \<notin> set (map fst ?w)" "''email'' \<notin> set (map fst ?w)"
      by (rule contra_subsetD[OF k n(1)], rule contra_subsetD[OF k n(2)])
    have e: "\<exists>written. User_update uid ?w = User_update uid written
        \<and> set (map fst written) \<subseteq> set allowedFields \<union> {''updated_at''}
        \<and> ''id'' \<notin> set (map fst written) \<and> ''email'' \<notin> set (map fst written)"
      using k i by (intro exI[of _ ?w] conjI) simp_all
    from put_user_calls[of supabase now uid upd'] show ?thesis
    proof
      assume "snd (put_user supabase now uid upd') = []"
      then show ?thesis by simp
    next
      assume "snd (put_user supabase now uid upd') = [User_update uid ?w]"
      then show ?thesis using e by simp
    qed
  qed
  show ?thesis
  proof (intro conjI impI)
    show "\<forall>c \<in> set (snd (put_user supabase now userId upd)).
      \<exists>written. c = User_update userId written
        \<and> set (map fst written) \<subseteq> set allowedFields \<union> {''updated_at''}
        \<and> ''id'' \<notin> set (map fst written) \<and> ''email'' \<notin> set (map fst written)"
      by (rule h)
  next
    assume "req_method req = PUT \<and> users_router supabase now req = Some r"
    then have "r = put_user supabase now (hd (req_path req)) (req_body req)"
      by (simp add: put_user_route)
    then show "\<forall>c \<in> set (snd r). \<exists>target written. c = User_update target written
             \<and> ''id'' \<notin> set (map fst written) \<and> ''email'' \<notin> set (map fst written)"
      using h[of "hd (req_path req)" "req_body req"] by fast
  qed
qed


theorem update_frame_witness:
  "snd (put_user offline ''t'' ''123e4567-e89b-12d3-a456-426614174000''
          [''id'' \<mapsto> JStr ''other'', ''email'' \<mapsto> JStr ''e@x'', ''bio'' \<mapsto> JStr ''hi''])
     = [User_update ''123e4567-e89b-12d3-a456-426614174000''
          [(''bio'', JStr ''hi''), (''updated_at'', JStr ''t'')]]
   \<and> users_router offline ''t''
        \<lparr>req_method = PUT, req_path = [''123e4567-e89b-12d3-a456-426614174000''],
         req_query = Map.empty,
         req_body = [''id'' \<mapsto> JStr ''other'', ''email'' \<mapsto> JStr ''e@x'', ''bio'' \<mapsto> JStr ''hi'']\<rparr>
      = Some (put_user offline ''t'' ''123e4567-e89b-12d3-a456-426614174000''
          [''id'' \<mapsto> JStr ''other'', ''email'' \<mapsto> JStr ''e@x'', ''bio'' \<mapsto> JStr ''hi''])
   \<and> list_all (\<lambda>c. \<exists>written. c = User_update ''123e4567-e89b-12d3-a456-426614174000'' written
              \<and> ''id'' \<notin> set (map fst written) \<and> ''email'' \<notin> set (map fst written))
        (snd (put_user offline ''t'' ''123e4567-e89b-12d3-a456-426614174000''
          [''id'' \<mapsto> JStr ''other'', ''email'' \<mapsto> JStr ''e@x'', ''bio'' \<mapsto> JStr ''hi'']))"
proof -
  let ?id = "''123e4567-e89b-12d3-a456-426614174000''"
  let ?b = "[''id'' \<mapsto> JStr ''other'', ''email'' \<mapsto> JStr ''e@x'', ''bio'' \<mapsto> JStr ''hi'']"
  let ?req = "\<lparr>req_method = PUT, req_path = [?id], req_query = Map.empty, req_body = ?b\<rparr>"
  have r: "regex_test uuidRegex ?id" by code_simp
  have f: "filteredData ?b = [(''bio'', JStr ''hi'')]"
    by (simp add: filteredData_def allowedFields_def List.map_filter_simps)
  have p: "snd (put_user offline ''t'' ?id ?b)
      = [User_update ?id [(''bio'', JStr ''hi''), (''updated_at'', JStr ''t'')]]"
    using r f by (simp add: put_user_def offline_def)
  have q: "users_router offline ''t'' ?req = Some (put_user offline ''t'' ?id ?b)"
    by (simp add: users_router_def)
  have "\<forall>c \<in> set (snd (put_user offline ''t'' ?id ?b)).
      \<exists>written. c = User_update ?id written
        \<and> set (map fst written) \<subseteq> set allowedFields \<union> {''updated_at''}
        \<and> ''id'' \<notin> set (map fst written) \<and> ''email'' \<notin> set (map fst written)"
    using update_frame [of offline "''t''" ?id ?b ?req "put_user offline ''t'' ?id ?b"]
    by (rule conjunct1)
  then have "list_all (\<lambda>c. \<exists>written. c = User_update ?id written
              \<and> ''id'' \<notin> set (map fst written) \<and> ''email'' \<notin> set (map fst written))
        (snd (put_user offline ''t'' ?id ?b))"
    unfolding list_all_iff by fast
  then show ?thesis using p q by (intro conjI)
qed


section \<open>The search route\<close>

text \<open>
  C5. \<open>GET /api/users/search\<close> is meant to answer 400 to a search term of fewer than two
  characters and to go on to the provider, asking for at most 20 rows, otherwise; the
  handler \<open>search_users\<close> does so. The router never reaches it: \<open>/:id\<close> is registered
  before \<open>/search\<close>, takes the request with the identifier \<open>search\<close>, and answers 400 for
  a malformed identifier whatever the search term is, also for the term \<open>ab\<close>.
\<close>

theorem search_is_shadowed:
  "users_router supabase now \<lparr>req_method = GET, req_path = [''search''], req_query = q, req_body = b\<rparr>
     = Some (get_user supabase ''search'')
   \<and> get_user supabase ''search''
     = (bad_request ''invalid user id format''
          [(''example'', JStr ''/api/users/123e4567-e89b-12d3-a456-426614174000'')], [])
   \<and> users_router supabase now
          \<lparr>req_method = GET, req_path = [''search''], req_query = [''q'' \<mapsto> ''ab''],
           req_body = Map.empty\<rparr>
     = Some (bad_request ''invalid user id format''
          [(''example'', JStr ''/api/users/123e4567-e89b-12d3-a456-426614174000'')], [])
   \<and> status (bad_request ''invalid user id format''
          [(''example'', JStr ''/api/users/123e4567-e89b-12d3-a456-426614174000'')]) = 400
   \<and> status (fst (search_users supabase (Some ''a'') None None)) = 400
   \<and> snd (search_users supabase (Some ''ab'') None None) = [User_search ''ab'' None None 20]"
proof -
  have n: "\<not> regex_test uuidRegex ''search''" by code_simp
  have r: "users_router supabase now \<lparr>req_method = GET, req_path = [''search''], req_query = q', req_body = b'\<rparr>
     = Some (get_user supabase ''search'')" for q' b'
    by (simp add: users_router_def)
  have g: "get_user supabase ''search''
     = (bad_request ''invalid user id format''
          [(''example'', JStr ''/api/users/123e4567-e89b-12d3-a456-426614174000'')], [])"
    using n by (simp add: get_user_def)
  have t: "trim ''a'' = ''a''" "trim ''ab'' = ''ab''" by code_simp+
  have s1: "status (fst (search_users supabase (Some ''a'') None None)) = 400"
    by (simp add: search_users_def str_or_def t bad_request_def)
  have s2: "snd (search_users supabase (Some ''ab'') None None) = [User_search ''ab'' None None 20]"
    by (simp add: search_users_def str_or_def t Let_def split: reply.splits option.splits)
  show ?thesis
    unfolding r g using s1 s2 by (simp add: bad_request_def)
qed


section \<open>Provider errors\<close>







section \<open>Registration\<close>

text \<open>
  C8, as stated, fails where it promises the three fields of \<open>auth\<close> after every
  successful registration: when the provider's sign-up answers with a user and no session
  (as it does while the address awaits confirmation), the response is 201 and its \<open>auth\<close>
  object is empty. The handler reads each field with \<open>session?.\<close> for this case.
\<close>

theorem register_no_session_counterexample:
  "status (fst (register
      (offline\<lparr>sign_up := (\<lambda>em pw meta. ok (''u-1'', None)), users_insert := (\<lambda>row. ok row)\<rparr>) ''t''
      \<lparr>email = Some ''ann@example.org'', password = Some ''secret1'', name = Some ''Ann'',
       diving_experience = None, location = None\<rparr>)) = 201
   \<and> snd (register
      (offline\<lparr>sign_up := (\<lambda>em pw meta. ok (''u-1'', None)), users_insert := (\<lambda>row. ok row)\<rparr>) ''t''
      \<lparr>email = Some ''ann@example.org'', password = Some ''secret1'', name = Some ''Ann'',
       diving_experience = None, location = None\<rparr>)
     = [Sign_up ''ann@example.org'' ''secret1''
          (JObj [(''name'', JStr ''Ann''), (''diving_experience'', JStr ''beginner'')]),
        Users_insert [(''id'', JStr ''u-1''), (''email'', JStr ''ann@example.org''),
          (''name'', JStr ''Ann''), (''diving_experience'', JStr ''beginner''),
          (''location'', JNull), (''total_dives'', JNum 0), (''created_at'', JStr ''t'')]]
   \<and> obj_get (body (fst (register
      (offline\<lparr>sign_up := (\<lambda>em pw meta. ok (''u-1'', None)), users_insert := (\<lambda>row. ok row)\<rparr>) ''t''
      \<lparr>email = Some ''ann@example.org'', password = Some ''secret1'', name = Some ''Ann'',
       diving_experience = None, location = None\<rparr>))) ''auth'' = Some (JObj [])
   \<and> js_prop (obj_get (body (fst (register
      (offline\<lparr>sign_up := (\<lambda>em pw meta. ok (''u-1'', None)), users_insert := (\<lambda>row. ok row)\<rparr>) ''t''
      \<lparr>email = Some ''ann@example.org'', password = Some ''secret1'', name = Some ''Ann'',
       diving_experience = None, location = None\<rparr>))) ''auth'') ''access_token'' = None"
  by (simp add: register_def str_or_def js_or_def ok_def offline_def Let_def obj_get_def
      auth_fields_def js_prop_def)

text \<open>
  C8, amended. \<open>POST /api/auth/register\<close> answers 400, and sends nothing, when \<open>email\<close>,
  \<open>password\<close> or \<open>name\<close> is missing or empty and when the password has fewer than 6
  characters. For a body that passes both checks, a sign-up error whose message contains
  \<open>already registered\<close> gives 409 with the code \<open>EMAIL_ALREADY_EXISTS\<close>; a sign-up and an
  insert without error give 201 with the \<open>user\<close> read from the inserted row and an \<open>auth\<close>
  object that holds \<open>access_token\<close>, \<open>refresh_token\<close> and \<open>expires_at\<close> of the session when
  the sign-up returned one, and nothing when it returned none.
\<close>

theorem register_contract:
  "((email b = None \<or> email b = Some [] \<or> password b = None \<or> password b = Some []
       \<or> name b = None \<or> name b = Some []) \<longrightarrow>
      status (fst (register supabase now b)) = 400 \<and> snd (register supabase now b) = [])
   \<and> (password b = Some pw \<and> length pw < 6 \<longrightarrow>
      status (fst (register supabase now b)) = 400 \<and> snd (register supabase now b) = [])
   \<and> (email b = Some em \<and> em \<noteq> [] \<and> password b = Some pw \<and> 6 \<le> length pw
        \<and> name b = Some nm \<and> nm \<noteq> []
        \<and> meta = JObj [(''name'', JStr nm),
                       (''diving_experience'', js_or (diving_experience b) (JStr ''beginner''))]
        \<and> sign_up supabase em pw meta = Gave a \<and> error a = Some e
        \<and> str_includes (err_message e) ''already registered'' \<longrightarrow>
      status (fst (register supabase now b)) = 409
      \<and> obj_get (body (fst (register supabase now b))) ''code'' = Some (JStr ''EMAIL_ALREADY_EXISTS'')
      \<and> snd (register supabase now b) = [Sign_up em pw meta])
   \<and> (email b = Some em \<and> em \<noteq> [] \<and> password b = Some pw \<and> 6 \<le> length pw
        \<and> name b = Some nm \<and> nm \<noteq> []
        \<and> meta = JObj [(''name'', JStr nm),
                       (''diving_experience'', js_or (diving_experience b) (JStr ''beginner''))]
        \<and> sign_up supabase em pw meta = Gave a \<and> error a = None \<and> data a = (uid, session)
        \<and> row = [(''id'', JStr uid), (''email'', JStr em), (''name'', JStr nm),
                  (''diving_experience'', js_or (diving_experience b) (JStr ''beginner'')),
                  (''location'', js_or (location b) JNull), (''total_dives'', JNum 0),
                  (''created_at'', JStr now)]
        \<and> users_insert supabase row = Gave u \<and> error u = None \<longrightarrow>
      status (fst (register supabase now b)) = 201
      \<and> snd (register supabase now b) = [Sign_up em pw meta, Users_insert row]
      \<and> obj_get (body (fst (register supabase now b))) ''user''
          = Some (JObj (pick (data u) [''id'', ''email'', ''name'', ''diving_experience'',
                                        ''location'', ''created_at'']))
      \<and> obj_get (body (fst (register supabase now b))) ''auth''
          = Some (JObj (case session of
                          None \<Rightarrow> []
                        | Some s \<Rightarrow> [(''access_token'', access_token s),
                                     (''refresh_token'', refresh_token s),
                                     (''expires_at'', expires_at s)])))"
proof (intro conjI impI)
  assume "email b = None \<or> email b = Some [] \<or> password b = None \<or> password b = Some []
       \<or> name b = None \<or> name b = Some []"
  then have m: "str_or (email b) [] = [] \<or> str_or (password b) [] = [] \<or> str_or (name b) [] = []"
    by (auto simp: str_or_def)
  show "status (fst (register supabase now b)) = 400"
    using m by (simp add: register_def bad_request_def)
  show "snd (register supabase now b) = []"
    using m by (simp add: register_def)
next
  assume "password b = Some pw \<and> length pw < 6"
  then have s: "length (str_or (password b) []) < 6" by (simp add: str_or_def)
  show "status (fst (register supabase now b)) = 400"
    using s by (simp add: register_def bad_request_def)
  show "snd (register supabase now b) = []"
    using s by (simp add: register_def)
next
  assume h: "email b = Some em \<and> em \<noteq> [] \<and> password b = Some pw \<and> 6 \<le> length pw
        \<and> name b = Some nm \<and> nm \<noteq> []
        \<and> meta = JObj [(''name'', JStr nm),
                       (''diving_experience'', js_or (diving_experience b) (JStr ''beginner''))]
        \<and> sign_up supabase em pw meta = Gave a \<and> error a = Some e
        \<and> str_includes (err_message e) ''already registered''"
  then have v: "str_or (email b) [] = em" "str_or (password b) [] = pw" "str_or (name b) [] = nm"
    "em \<noteq> []" "nm \<noteq> []" "pw \<noteq> []" "\<not> length pw < 6"
    by (auto simp: str_or_def)
  from h have m: "meta = JObj [(''name'', JStr nm),
                       (''diving_experience'', js_or (diving_experience b) (JStr ''beginner''))]"
    by (elim conjE)
  from h have p1: "sign_up supabase em pw meta = Gave a" by (elim conjE)
  from h have p2: "error a = Some e" by (elim conjE)
  from h have p3: "str_includes (err_message e) ''already registered''" by (elim conjE)
  note p = p1 p2 p3
  show "status (fst (register supabase now b)) = 409"
    using v p unfolding m by (simp add: register_def Let_def)
  show "obj_get (body (fst (register supabase now b))) ''code'' = Some (JStr ''EMAIL_ALREADY_EXISTS'')"
    using v p unfolding m by (simp add: register_def Let_def obj_get_def)
  show "snd (register supabase now b) = [Sign_up em pw meta]"
    using v p unfolding m by (simp add: register_def Let_def)
next
  assume h: "email b = Some em \<and> em \<noteq> [] \<and> password b = Some pw \<and> 6 \<le> length pw
        \<and> name b = Some nm \<and> nm \<noteq> []
        \<and> meta = JObj [(''name'', JStr nm),
                       (''diving_experience'', js_or (diving_experience b) (JStr ''beginner''))]
        \<and> sign_up supabase em pw meta = Gave a \<and> error a = None \<and> data a = (uid, session)
        \<and> row = [(''id'', JStr uid), (''email'', JStr em), (''name'', JStr nm),
                  (''diving_experience'', js_or (diving_experience b) (JStr ''beginner'')),
                  (''location'', js_or (location b) JNull), (''total_dives'', JNum 0),
                  (''created_at'', JStr now)]
        \<and> users_insert supabase row = Gave u \<and> error u = None"
  then have v: "str_or (email b) [] = em" "str_or (password b) [] = pw" "str_or (name b) [] = nm"
    "em \<noteq> []" "nm \<noteq> []" "pw \<noteq> []" "\<not> length pw < 6"
    by (auto simp: str_or_def)
  from h have m: "meta = JObj [(''name'', JStr nm),
                       (''diving_experience'', js_or (diving_experience b) (JStr ''beginner''))]"
    by (elim conjE)
  from h have w: "row = [(''id'', JStr uid), (''email'', JStr em), (''name'', JStr nm),
                  (''diving_experience'', js_or (diving_experience b) (JStr ''beginner'')),
                  (''location'', js_or (location b) JNull), (''total_dives'', JNum 0),
                  (''created_at'', JStr now)]"
    by (elim conjE)
  from h have p1: "sign_up supabase em pw meta = Gave a" by (elim conjE)
  from h have p2: "error a = None" by (elim conjE)
  from h have p3: "data a = (uid, session)" by (elim conjE)
  from h have p4: "users_insert supabase row = Gave u" by (elim conjE)
  from h have p5: "error u = None" by (elim conjE)
  note p = p1 p2 p3 p4 p5
  show "status (fst (register supabase now b)) = 201"
    using v p unfolding m w by (simp add: register_def Let_def)
  show "snd (register supabase now b) = [Sign_up em pw meta, Users_insert row]"
    using v p unfolding m w by (simp add: register_def Let_def)
  show "obj_get (body (fst (register supabase now b))) ''user''
          = Some (JObj (pick (data u) [''id'', ''email'', ''name'', ''diving_experience'',
                                        ''location'', ''created_at'']))"
    using v p unfolding m w by (simp add: register_def Let_def obj_get_def)
  show "obj_get (body (fst (register supabase now b))) ''auth''
          = Some (JObj (case session of
                          None \<Rightarrow> []
                        | Some s \<Rightarrow> [(''access_token'', access_token s),
                                     (''refresh_token'', refresh_token s),
                                     (''expires_at'', expires_at s)]))"
    using v p unfolding m w by (simp add: register_def Let_def obj_get_def auth_fields_def)
qed


theorem register_contract_witness:
  "status (fst (register offline ''t''
      \<lparr>email = Some ''ann@example.org'', password = Some ''secret1'', name = None,
       diving_experience = None, location = None\<rparr>)) = 400
   \<and> status (fst (register offline ''t''
      \<lparr>email = Some ''ann@example.org'', password = Some ''abc'', name = Some ''Ann'',
       diving_experience = None, location = None\<rparr>)) = 400
   \<and> str_includes ''User already registered'' ''already registered''
   \<and> status (fst (register
      (failing \<lparr>err_code = ''user_already_exists'', err_message = ''User already registered''\<rparr>) ''t''
      \<lparr>email = Some ''ann@example.org'', password = Some ''secret1'', name = Some ''Ann'',
       diving_experience = None, location = None\<rparr>)) = 409
   \<and> obj_get (body (fst (register
      (failing \<lparr>err_code = ''user_already_exists'', err_message = ''User already registered''\<rparr>) ''t''
      \<lparr>email = Some ''ann@example.org'', password = Some ''secret1'', name = Some ''Ann'',
       diving_experience = None, location = None\<rparr>))) ''code'' = Some (JStr ''EMAIL_ALREADY_EXISTS'')
   \<and> status (fst (register
      (offline\<lparr>sign_up := (\<lambda>em pw meta. ok (''u-1'',
          Some \<lparr>access_token = JStr ''at'', refresh_token = JStr ''rt'', expires_at = JNum 1700000000\<rparr>)),
        users_insert := (\<lambda>row. ok row)\<rparr>) ''t''
      \<lparr>email = Some ''ann@example.org'', password = Some ''secret1'', name = Some ''Ann'',
       diving_experience = None, location = None\<rparr>)) = 201
   \<and> obj_get (body (fst (register
      (offline\<lparr>sign_up := (\<lambda>em pw meta. ok (''u-1'',
          Some \<lparr>access_token = JStr ''at'', refresh_token = JStr ''rt'', expires_at = JNum 1700000000\<rparr>)),
        users_insert := (\<lambda>row. ok row)\<rparr>) ''t''
      \<lparr>email = Some ''ann@example.org'', password = Some ''secret1'', name = Some ''Ann'',
       diving_experience = None, location = None\<rparr>))) ''auth''
     = Some (JObj [(''access_token'', JStr ''at''), (''refresh_token'', JStr ''rt''),
                   (''expires_at'', JNum 1700000000)])"
proof -
  let ?dup = "\<lparr>err_code = ''user_already_exists'', err_message = ''User already registered''\<rparr>"
  let ?ses = "\<lparr>access_token = JStr ''at'', refresh_token = JStr ''rt'', expires_at = JNum 1700000000\<rparr>"
  let ?P = "offline\<lparr>sign_up := (\<lambda>em pw meta. ok (''u-1'', Some ?ses)), users_insert := (\<lambda>row. ok row)\<rparr>"
  let ?b = "\<lparr>email = Some ''ann@example.org'', password = Some ''secret1'', name = Some ''Ann'',
       diving_experience = None, location = None\<rparr>"
  let ?meta = "JObj [(''name'', JStr ''Ann''), (''diving_experience'', JStr ''beginner'')]"
  let ?row = "[(''id'', JStr ''u-1''), (''email'', JStr ''ann@example.org''), (''name'', JStr ''Ann''),
              (''diving_experience'', JStr ''beginner''), (''location'', JNull),
              (''total_dives'', JNum 0), (''created_at'', JStr ''t'')]"
  have i: "str_includes ''User already registered'' ''already registered''" by code_simp
  have c1: "status (fst (register offline ''t''
      \<lparr>email = Some ''ann@example.org'', password = Some ''secret1'', name = None,
       diving_experience = None, location = None\<rparr>)) = 400"
    using register_contract [where b = "\<lparr>email = Some ''ann@example.org'', password = Some ''secret1'',
        name = None, diving_experience = None, location = None\<rparr>" and supabase = offline and now = "''t''"]
    by simp
  have c2: "status (fst (register offline ''t''
      \<lparr>email = Some ''ann@example.org'', password = Some ''abc'', name = Some ''Ann'',
       diving_experience = None, location = None\<rparr>)) = 400"
    using register_contract [where b = "\<lparr>email = Some ''ann@example.org'', password = Some ''abc'',
        name = Some ''Ann'', diving_experience = None, location = None\<rparr>" and supabase = offline
        and now = "''t''" and pw = "''abc''"]
    by simp
  have c3: "status (fst (register (failing ?dup) ''t'' ?b)) = 409
     \<and> obj_get (body (fst (register (failing ?dup) ''t'' ?b))) ''code'' = Some (JStr ''EMAIL_ALREADY_EXISTS'')"
    using register_contract [where b = ?b and supabase = "failing ?dup" and now = "''t''"
        and em = "''ann@example.org''" and pw = "''secret1''" and nm = "''Ann''" and meta = ?meta
        and a = "\<lparr>data = ([], None), error = Some ?dup, count = None\<rparr>" and e = ?dup] i
    by (simp add: failing_def failed_def js_or_def)
  have c4: "status (fst (register ?P ''t'' ?b)) = 201
     \<and> obj_get (body (fst (register ?P ''t'' ?b))) ''auth''
       = Some (JObj [(''access_token'', JStr ''at''), (''refresh_token'', JStr ''rt''),
                     (''expires_at'', JNum 1700000000)])"
    using register_contract [where b = ?b and supabase = ?P and now = "''t''"
        and em = "''ann@example.org''" and pw = "''secret1''" and nm = "''Ann''" and meta = ?meta
        and a = "\<lparr>data = (''u-1'', Some ?ses), error = None, count = None\<rparr>"
        and uid = "''u-1''" and session = "Some ?ses" and row = ?row
        and u = "\<lparr>data = ?row, error = None, count = None\<rparr>"]
    by (simp add: ok_def js_or_def)
  show ?thesis
    using c1 c2 i c3 c4 by (intro conjI) simp_all
qed



section \<open>The counters of a new dive\<close>

lemma obj_get_set: "obj_get (obj_set k v row) k' = (if k' = k then Some v else obj_get row k')"
  by (induction row) (auto simp: obj_get_def)

lemma obj_get_write:
  "obj_get (foldl (\<lambda>r kv. obj_set (fst kv) (snd kv) r) row upd) k =
     (case map_of (rev upd) k of None \<Rightarrow> obj_get row k | Some v \<Rightarrow> Some v)"
  by (induction upd arbitrary: row) (auto simp: obj_get_set map_add_def split: option.splits)






















end
